theory Spec2Isabelle
  imports Complex_Main
begin

section \<open>Session Gateway: the reconnect handler\<close>

text \<open>
  The reconnect Lambda receives a JSON body with \<open>SessionIdentifier\<close> and
  \<open>SignalRequest\<close>, splits the session ARN at every \<open>/\<close> and passes
  \<open>parts[parts.length - 2]\<close> as \<open>Identifier\<close> to the control plane's
  \<open>createStreamSessionConnection\<close>.
\<close>

text \<open>
  JavaScript's \<open>String.prototype.split\<close> with a one-character separator: the result
  is never empty, an empty string gives one empty segment, and adjacent separators
  give empty segments.
\<close>

fun js_split :: "char \<Rightarrow> string \<Rightarrow> string list" where
  "js_split sep [] = [[]]"
| "js_split sep (c # cs) =
     (if c = sep then [] # js_split sep cs
      else (case js_split sep cs of
              [] \<Rightarrow> [[c]]
            | p # ps \<Rightarrow> (c # p) # ps))"

text \<open>\<open>Array.prototype.join\<close> with a one-character separator.\<close>

fun js_join :: "char \<Rightarrow> string list \<Rightarrow> string" where
  "js_join sep [] = []"
| "js_join sep [p] = p"
| "js_join sep (p # q # ps) = p @ sep # js_join sep (q # ps)"

text \<open>
  Reading an array at an index: \<open>undefined\<close> (here \<open>None\<close>) outside the array,
  which is what \<open>parts[parts.length - 2]\<close> gives when there are fewer than two parts.
\<close>

definition js_index :: "'a list \<Rightarrow> int \<Rightarrow> 'a option" where
  "js_index xs i = (if 0 \<le> i \<and> i < int (length xs) then Some (xs ! nat i) else None)"

definition sg_arn :: "string \<Rightarrow> string option" where
  "sg_arn SessionIdentifier =
     (let parts = js_split (CHR ''/'') SessionIdentifier
      in js_index parts (int (length parts) - 2))"

text \<open>The parsed request body of the reconnect handler; a missing property is \<open>None\<close>.\<close>

record reconnect_body =
  SessionIdentifier :: "string option"
  SignalRequest :: "string option"

text \<open>The input object handed to \<open>createStreamSessionConnection\<close>.\<close>

record connection_input =
  Identifier :: "string option"
  StreamSessionIdentifier :: string
  ConnectionSignalRequest :: "string option"

datatype lambda_response =
  Ok200 string
| Error500 string

text \<open>
  The object built at lines 76-83. \<open>body.SessionIdentifier.split\<close> throws a
  \<open>TypeError\<close> inside the \<open>try\<close> when the property is missing; the message of that
  error is what the handler then returns.
\<close>

definition connection_request :: "reconnect_body \<Rightarrow> string + connection_input" where
  "connection_request body =
     (case SessionIdentifier body of
        None \<Rightarrow> Inl ''Cannot read properties of undefined (reading 'split')''
      | Some arn \<Rightarrow>
          Inr \<lparr> Identifier = sg_arn arn,
                StreamSessionIdentifier = arn,
                ConnectionSignalRequest = SignalRequest body \<rparr>)"

text \<open>
  The handler, with the control plane as a parameter: it answers a request with an
  error message (the call throws) or with a stream session whose \<open>SignalResponse\<close>
  may be missing (\<open>streamSession.SignalResponse ?? ''\<close>).
\<close>

definition reconnect_handler ::
  "(connection_input \<Rightarrow> string + string option) \<Rightarrow> reconnect_body \<Rightarrow> lambda_response" where
  "reconnect_handler createStreamSessionConnection body =
     (case connection_request body of
        Inl message \<Rightarrow> Error500 message
      | Inr input \<Rightarrow>
          (case createStreamSessionConnection input of
             Inl message \<Rightarrow> Error500 message
           | Inr None \<Rightarrow> Ok200 []
           | Inr (Some signalResponse) \<Rightarrow> Ok200 signalResponse))"


section \<open>Stats Processor\<close>

text \<open>
  \<open>StatsOverlay.tsx\<close>. JavaScript numbers are modelled as exact numbers: the
  samples' \<open>framesPerSecond\<close>, \<open>jitter\<close> and \<open>currentRoundTripTime\<close> as rationals,
  the byte counter and \<open>Date.now()\<close> as integers. A property that is \<open>undefined\<close>
  is \<open>None\<close>; \<open>NaN\<close> and the rounding of double arithmetic are outside the model.
\<close>

record report =
  report_type :: string
  report_state :: "string option"
  framesPerSecond :: "rat option"
  report_jitter :: "rat option"
  bytesReceived :: "int option"
  currentRoundTripTime :: "rat option"

record NetworkStats =
  rtt :: "int option"
  jitter :: "int option"
  bitrate :: "string option"

text \<open>
  The values a call of \<open>processStats\<close> works with: the \<open>networkStats\<close> and
  \<open>frameRate\<close> its closure sees (copied into \<open>newNetworkStats\<close> and \<open>newFrameRate\<close>,
  and stored back by \<open>setNetworkStats\<close> and \<open>setFrameRate\<close> at the end), and the two
  refs of the bitrate baseline.
\<close>

record overlay =
  networkStats :: NetworkStats
  frameRate :: "int option"
  previousBytesReceivedRef :: int
  previousTimestampRef :: int

text \<open>The values of \<open>useState\<close> and \<open>useRef\<close> when the component mounts.\<close>

definition initial_overlay :: overlay where
  "initial_overlay =
     \<lparr> networkStats = \<lparr> rtt = None, jitter = None, bitrate = None \<rparr>,
       frameRate = None,
       previousBytesReceivedRef = 0,
       previousTimestampRef = 0 \<rparr>"

text \<open>\<open>Math.round\<close>: the nearest integer, a tie going up.\<close>

definition Math_round :: "rat \<Rightarrow> int" where
  "Math_round x = \<lfloor>x + 1 / 2\<rfloor>"

definition digit :: "nat \<Rightarrow> char" where
  "digit d = ''0123456789'' ! (d mod 10)"

fun show_nat :: "nat \<Rightarrow> string" where
  "show_nat n = (if n < 10 then [digit n] else show_nat (n div 10) @ [digit n])"

declare show_nat.simps [simp del]

definition show_int :: "int \<Rightarrow> string" where
  "show_int i = (if i < 0 then CHR ''-'' # show_nat (nat (- i)) else show_nat (nat i))"

text \<open>
  \<open>Number.prototype.toFixed(2)\<close> on a finite number below \<open>10^21\<close> in size: the sign,
  then the integer \<open>n\<close> nearest to a hundred times the magnitude (a tie going up)
  written with two digits after the point. The byte counter is a 64-bit counter and
  the time difference a whole number of milliseconds, so the bitrate stays below
  \<open>10^21\<close> and the exponent notation of larger numbers is not reached.
\<close>

definition toFixed2 :: "rat \<Rightarrow> string" where
  "toFixed2 x =
     (let n = nat \<lfloor>\<bar>x\<bar> * 100 + 1 / 2\<rfloor>
      in (if x < 0 then ''-'' else []) @ show_nat (n div 100)
         @ CHR ''.'' # [digit (n div 10), digit n])"

text \<open>
  Lines 139-143: \<open>((bytesDiff * 8) / timeDiff / 1000000).toFixed(2)\<close> with
  \<open>timeDiff = (now - previousTimestamp) / 1000\<close>. Dividing by a zero \<open>timeDiff\<close> gives
  an infinity or \<open>NaN\<close>, which \<open>toFixed\<close> prints by name.
\<close>

definition bitrate_text :: "int \<Rightarrow> int \<Rightarrow> int \<Rightarrow> int \<Rightarrow> string" where
  "bitrate_text now previousTimestamp received previousBytesReceived =
     (let timeDiff = rat_of_int (now - previousTimestamp) / 1000;
          bytesDiff = received - previousBytesReceived
      in if timeDiff = 0
         then (if 0 < bytesDiff then ''Infinity''
               else if bytesDiff < 0 then ''-Infinity'' else ''NaN'')
         else toFixed2 (rat_of_int (bytesDiff * 8) / timeDiff / 1000000))"

text \<open>
  \<open>x ? Math.round(x * 1000) : undefined\<close>: a missing value and zero are both falsy.
\<close>

definition to_ms :: "rat option \<Rightarrow> int option" where
  "to_ms x = (case x of
                None \<Rightarrow> None
              | Some v \<Rightarrow> if v = 0 then None else Some (Math_round (v * 1000)))"

text \<open>
  The first \<open>if\<close> of the \<open>forEach\<close> body (lines 130-148); \<open>now\<close> is the reading of
  \<open>Date.now()\<close> at line 139.
\<close>

definition inbound_rtp :: "int \<Rightarrow> report \<Rightarrow> overlay \<Rightarrow> overlay" where
  "inbound_rtp now r s =
     (case framesPerSecond r of
        None \<Rightarrow> s
      | Some fps \<Rightarrow>
          if report_type r \<noteq> ''inbound-rtp'' then s
          else
            let s1 = s \<lparr> frameRate := Some (Math_round fps),
                         networkStats := (networkStats s) \<lparr> jitter := to_ms (report_jitter r) \<rparr> \<rparr>;
                received = (case bytesReceived r of None \<Rightarrow> 0 | Some b \<Rightarrow> b);
                s2 = (if received \<noteq> 0 \<and> previousBytesReceivedRef s1 \<noteq> 0
                      then s1 \<lparr> networkStats := (networkStats s1)
                                   \<lparr> bitrate := Some (bitrate_text now (previousTimestampRef s1)
                                                      received (previousBytesReceivedRef s1)) \<rparr>,
                                previousTimestampRef := now \<rparr>
                      else s1)
            in s2 \<lparr> previousBytesReceivedRef := received \<rparr>)"

text \<open>The second \<open>if\<close> of the \<open>forEach\<close> body (lines 151-154).\<close>

definition candidate_pair :: "report \<Rightarrow> overlay \<Rightarrow> overlay" where
  "candidate_pair r s =
     (if report_type r = ''candidate-pair'' \<and> report_state r = Some ''succeeded''
      then s \<lparr> networkStats := (networkStats s) \<lparr> rtt := to_ms (currentRoundTripTime r) \<rparr> \<rparr>
      else s)"

definition process_report :: "int \<times> report \<Rightarrow> overlay \<Rightarrow> overlay" where
  "process_report nr s = candidate_pair (snd nr) (inbound_rtp (fst nr) (snd nr) s)"

text \<open>
  \<open>processStats\<close>: \<open>now0\<close> is the reading of \<open>Date.now()\<close> at line 121, and each
  report of the snapshot comes with the reading its own line 139 would take.
\<close>

definition processStats :: "int \<Rightarrow> (int \<times> report) list \<Rightarrow> overlay \<Rightarrow> overlay" where
  "processStats now0 stats s =
     (let s0 = (if previousBytesReceivedRef s = 0
                then s \<lparr> previousBytesReceivedRef := 0, previousTimestampRef := now0 \<rparr>
                else s)
      in fold process_report stats s0)"

text \<open>
  What the overlay prints: \<open>frameRate || '-'\<close>, \<open>networkStats.rtt || '-'\<close>,
  \<open>networkStats.jitter || '-'\<close> and \<open>networkStats.bitrate || '-'\<close>.
\<close>

definition number_or_dash :: "int option \<Rightarrow> string" where
  "number_or_dash x = (case x of
                         None \<Rightarrow> ''-''
                       | Some v \<Rightarrow> if v = 0 then ''-'' else show_int v)"


definition fps :: "overlay \<Rightarrow> string" where
  "fps s = number_or_dash (frameRate s)"

definition rtt_line :: "overlay \<Rightarrow> string" where
  "rtt_line s = number_or_dash (rtt (networkStats s)) @ '' ms''"

definition jitter_line :: "overlay \<Rightarrow> string" where
  "jitter_line s = number_or_dash (jitter (networkStats s)) @ '' ms''"


text \<open>Sample reports: an inbound video report and a succeeded candidate pair.\<close>

definition inbound_sample :: "rat \<Rightarrow> rat \<Rightarrow> int option \<Rightarrow> report" where
  "inbound_sample f j b =
     \<lparr> report_type = ''inbound-rtp'', report_state = None, framesPerSecond = Some f,
       report_jitter = Some j, bytesReceived = b, currentRoundTripTime = None \<rparr>"

definition pair_sample :: "rat \<Rightarrow> report" where
  "pair_sample t =
     \<lparr> report_type = ''candidate-pair'', report_state = Some ''succeeded'',
       framesPerSecond = None, report_jitter = None, bytesReceived = None,
       currentRoundTripTime = Some t \<rparr>"


section \<open>Session Lifecycle Controller\<close>

text \<open>
  \<open>StreamComponent.tsx\<close>. The component is modelled as one sequential flow of
  control: an operation runs from its call to the end of its last continuation, and
  \<open>setState\<close> takes effect at once. Everything outside the component (the SDK
  object, the gateway, the clock) answers through the parameter \<open>env\<close>.
\<close>

datatype StreamState = STOPPED | LOADING | RUNNING | ERROR

record StreamComponentState =
  status :: StreamState
  sgId :: string
  appId :: string
  sessionId :: string
  lastSessionId :: string
  regions :: "string list"
  inputEnabled :: bool
  isStreamStarting :: bool

text \<open>
  A \<open>GameLiftStreams\<close> object of the SDK, as far as the component uses it: how often
  each of its methods was called, and the answers handed to \<open>processSignalResponse\<close>.
\<close>

record GameLiftStreams =
  generateSignalRequest_calls :: nat
  processSignalResponse_calls :: "string list"
  attachInput_calls :: nat
  close_calls :: nat

definition new_GameLiftStreams :: GameLiftStreams where
  "new_GameLiftStreams =
     \<lparr> generateSignalRequest_calls = 0, processSignalResponse_calls = [],
       attachInput_calls = 0, close_calls = 0 \<rparr>"

text \<open>
  The body of an error response is a string or missing; \<open>handleError\<close> only passes
  it to \<open>JSON.parse\<close> and reads \<open>message\<close>, so the model keeps what that gives:
  text that does not parse, \<open>null\<close>, or a value with or without a \<open>message\<close>.
\<close>

datatype response_body = NotJson | JsonNull | JsonMessage "string option"

record api_response =
  statusCode :: int
  body :: "response_body option"

text \<open>
  A thrown value: an \<open>ApiError\<close> of the Amplify library, whose \<open>response\<close> is
  optional, or any other error object with its optional \<open>message\<close>.
\<close>

datatype error = ApiError "api_response option" | Error "string option"

text \<open>The parsed body of a successful gateway response.\<close>

record session_data =
  data_arn :: string
  data_signalResponse :: string
  data_status :: string

text \<open>
  How one gateway call inside a \<open>try\<close> block ends: something throws before the
  request goes out (\<open>fetchAuthSession\<close>), the request goes out and the call throws
  (a non-2xx status, a body that does not parse), or data comes back.
\<close>

datatype 'a reply = NotSent error | Failed error | Replied 'a

text \<open>
  One iteration of the poll loop as the outside world shapes it: the time the awaits
  of the iteration take, how the call ends, and by how much the one-second timer
  overruns.
\<close>

record poll_reply =
  latency :: nat
  reply :: "session_data reply"
  sleep_extra :: nat

record env =
  generateSignalRequest :: "error + string"
  processSignalResponse :: "string \<Rightarrow> error option"
  post_reply :: "session_data reply"
  get_reply :: "nat \<Rightarrow> poll_reply"

datatype request =
  StartStream string string string "string list"
| Reconnect string string
| GetSession int string string

text \<open>
  The component with the part of the world it acts on: \<open>this.state\<close>,
  \<open>this.gameliftstreams\<close> as the position of the current SDK object among all the
  SDK objects constructed so far, the reading of \<open>Date.now()\<close>, the gateway requests
  sent (a \<open>GetSession\<close> with the time at which its iteration began), the alerts
  shown and whether the document is in fullscreen.
\<close>

record component =
  state :: StreamComponentState
  gameliftstreams :: "nat option"
  sdk_objects :: "GameLiftStreams list"
  clock :: int
  requests :: "request list"
  alerts :: "string list"
  fullscreenElement :: bool

definition setState ::
  "(StreamComponentState \<Rightarrow> StreamComponentState) \<Rightarrow> component \<Rightarrow> component" where
  "setState f w = w \<lparr> state := f (state w) \<rparr>"

definition alert :: "string \<Rightarrow> component \<Rightarrow> component" where
  "alert message w = w \<lparr> alerts := alerts w @ [message] \<rparr>"

definition send :: "request \<Rightarrow> component \<Rightarrow> component" where
  "send r w = w \<lparr> requests := requests w @ [r] \<rparr>"

text \<open>\<open>this.gameliftstreams?.m()\<close>: nothing happens while the field is undefined.\<close>

definition on_sdk :: "(GameLiftStreams \<Rightarrow> GameLiftStreams) \<Rightarrow> component \<Rightarrow> component" where
  "on_sdk f w =
     (case gameliftstreams w of
        None \<Rightarrow> w
      | Some h \<Rightarrow> w \<lparr> sdk_objects := (sdk_objects w)[h := f (sdk_objects w ! h)] \<rparr>)"

text \<open>The constructor: the state of lines 40-49 and no SDK object yet.\<close>

definition constructor :: component where
  "constructor =
     \<lparr> state = \<lparr> status = STOPPED, sgId = [], appId = [], sessionId = [],
                 lastSessionId = [], regions = [''us-west-2''], inputEnabled = False,
                 isStreamStarting = False \<rparr>,
       gameliftstreams = None, sdk_objects = [], clock = 0, requests = [], alerts = [],
       fullscreenElement = False \<rparr>"

definition resetGameLiftStreamsSDK :: "component \<Rightarrow> component" where
  "resetGameLiftStreamsSDK w =
     w \<lparr> gameliftstreams := Some (length (sdk_objects w)),
         sdk_objects := sdk_objects w @ [new_GameLiftStreams] \<rparr>"

definition componentDidMount :: "component \<Rightarrow> component" where
  "componentDidMount w = resetGameLiftStreamsSDK w"

definition or_unknown :: "string option \<Rightarrow> string" where
  "or_unknown message =
     (case message of
        None \<Rightarrow> ''Unknown error''
      | Some m \<Rightarrow> if m = [] then ''Unknown error'' else m)"

text \<open>
  \<open>handleError\<close>. The result says whether it throws itself: \<open>JSON.parse\<close> throws a
  \<open>SyntaxError\<close> on the empty string that stands in for a missing body and on text
  that is not JSON, before the state is set; reading \<open>message\<close> of \<open>null\<close> throws a
  \<open>TypeError\<close> in the line of the alert, after the state was set. An \<open>ApiError\<close>
  without a response changes nothing.
\<close>

definition handleError :: "error \<Rightarrow> component \<Rightarrow> error option \<times> component" where
  "handleError e w =
     (case e of
        ApiError None \<Rightarrow> (None, w)
      | ApiError (Some response) \<Rightarrow>
          (case body response of
             None \<Rightarrow> (Some (Error (Some ''Unexpected end of JSON input'')), w)
           | Some NotJson \<Rightarrow> (Some (Error (Some ''Unexpected token'')), w)
           | Some JsonNull \<Rightarrow>
               (Some (Error (Some ''Cannot read properties of null (reading 'message')'')),
                setState (\<lambda>st. st \<lparr> isStreamStarting := False \<rparr>) w)
           | Some (JsonMessage message) \<Rightarrow>
               (None,
                alert (''Error: '' @ show_int (statusCode response) @ '' - ''
                         @ or_unknown message @ ''. Check console for details.'')
                  (setState (\<lambda>st. st \<lparr> isStreamStarting := False \<rparr>) w)))
      | Error message \<Rightarrow>
          (None,
           alert (''Error: '' @ or_unknown message @ ''. Check console for details.'')
             (setState (\<lambda>st. st \<lparr> isStreamStarting := False \<rparr>) w)))"

definition handleTimeout :: "string \<Rightarrow> component \<Rightarrow> component" where
  "handleTimeout arn w =
     alert ''Error: Stream session creation timed out. Check console for details.'' w"

text \<open>
  \<open>startStream\<close>: with an SDK object, \<open>processSignalResponse\<close> is called and may
  throw; then \<open>attachInput\<close>, then the state is set.
\<close>

definition startStream :: "env \<Rightarrow> string \<Rightarrow> component \<Rightarrow> error option \<times> component" where
  "startStream env signalResponse w =
     (let running = setState (\<lambda>st. st \<lparr> status := RUNNING, isStreamStarting := False \<rparr>)
      in case gameliftstreams w of
           None \<Rightarrow> (None, running w)
         | Some h \<Rightarrow>
             (let w1 = on_sdk (\<lambda>g. g \<lparr> processSignalResponse_calls :=
                                          processSignalResponse_calls g @ [signalResponse] \<rparr>) w
              in case processSignalResponse env signalResponse of
                   Some e \<Rightarrow> (Some e, w1)
                 | None \<Rightarrow>
                     (None,
                      running (on_sdk (\<lambda>g. g \<lparr> attachInput_calls :=
                                                  Suc (attachInput_calls g) \<rparr>) w1))))"

text \<open>The \<open>catch\<close> block of the poll loop (lines 216-220).\<close>

definition poll_catch :: "error \<Rightarrow> component \<Rightarrow> error option \<times> component" where
  "poll_catch e w =
     (case handleError e w of
        (Some thrown, w') \<Rightarrow> (Some thrown, w')
      | (None, w') \<Rightarrow> (None, setState (\<lambda>st. st \<lparr> isStreamStarting := False \<rparr>) w'))"

text \<open>
  One pass through the body of the \<open>while\<close> loop of \<open>waitForACTIVE\<close> (lines 191-220),
  the \<open>i\<close>-th of this call: \<open>Inl\<close> when the function returns or throws in this
  pass, \<open>Inr\<close> when the pass ends with the one-second wait.
\<close>

definition poll_iteration ::
  "env \<Rightarrow> string \<Rightarrow> string \<Rightarrow> nat \<Rightarrow> component
     \<Rightarrow> (error option \<times> component) + component" where
  "poll_iteration env arn sg i w =
     (let r = get_reply env i;
          sent = send (GetSession (clock w) sg arn);
          w1 = w \<lparr> clock := clock w + int (latency r) \<rparr>
      in case reply r of
           NotSent e \<Rightarrow> Inl (poll_catch e w1)
         | Failed e \<Rightarrow> Inl (poll_catch e (sent w1))
         | Replied data \<Rightarrow>
             if data_status data = ''ACTIVE''
             then (case startStream env (data_signalResponse data) (sent w1) of
                     (Some e, w2) \<Rightarrow> Inl (poll_catch e w2)
                   | (None, w2) \<Rightarrow>
                       Inl (None, setState (\<lambda>st. st \<lparr> lastSessionId := arn \<rparr>) w2))
             else Inr ((sent w1) \<lparr> clock := clock w1 + 1000 + int (sleep_extra r) \<rparr>))"

lemma poll_iteration_clock:
  "poll_iteration env arn sg i w = Inr w' \<Longrightarrow> clock w + 1000 \<le> clock w'"
  by (auto simp add: poll_iteration_def Let_def send_def
      split: reply.splits if_splits prod.splits option.splits)

text \<open>
  The \<open>while\<close> loop of \<open>waitForACTIVE\<close> with what follows it (lines 190-224). Every
  pass that does not return takes at least the second of its timer, so the loop ends.
\<close>

function poll ::
  "env \<Rightarrow> string \<Rightarrow> string \<Rightarrow> int \<Rightarrow> int \<Rightarrow> nat \<Rightarrow> component
     \<Rightarrow> error option \<times> component" where
  "poll env arn sg timeoutMs startTime i w =
     (if clock w - startTime < timeoutMs
      then (case poll_iteration env arn sg i w of
              Inl result \<Rightarrow> result
            | Inr w' \<Rightarrow> poll env arn sg timeoutMs startTime (Suc i) w')
      else (None, setState (\<lambda>st. st \<lparr> isStreamStarting := False \<rparr>) (handleTimeout arn w)))"
  by pat_completeness auto
termination
proof (relation "measure (\<lambda>(env, arn, sg, timeoutMs, startTime, i, w).
                            nat (startTime + timeoutMs - clock w))")
  show "wf (measure (\<lambda>(env, arn, sg, timeoutMs, startTime, i, w).
                       nat (startTime + timeoutMs - clock w)))"
    by simp
next
  fix env :: env and arn sg :: string and timeoutMs startTime :: int and i :: nat
    and w w' :: component
  assume "clock w - startTime < timeoutMs" and "poll_iteration env arn sg i w = Inr w'"
  then show "((env, arn, sg, timeoutMs, startTime, Suc i, w'),
              (env, arn, sg, timeoutMs, startTime, i, w))
             \<in> measure (\<lambda>(env, arn, sg, timeoutMs, startTime, i, w).
                           nat (startTime + timeoutMs - clock w))"
    using poll_iteration_clock [of env arn sg i w w'] by simp
qed

declare poll.simps [simp del]

definition waitForACTIVE ::
  "env \<Rightarrow> string \<Rightarrow> string \<Rightarrow> int \<Rightarrow> component \<Rightarrow> error option \<times> component" where
  "waitForACTIVE env arn sg timeoutMs w = poll env arn sg timeoutMs (clock w) 0 w"

text \<open>
  \<open>await this.gameliftstreams?.generateSignalRequest()\<close> followed by
  \<open>signalRequest ?? ''\<close>: the empty string without an SDK object, and \<open>Inl\<close> when the
  call throws, which happens before the \<open>try\<close> block.
\<close>

definition signalRequest :: "env \<Rightarrow> component \<Rightarrow> (error + string) \<times> component" where
  "signalRequest env w =
     (case gameliftstreams w of
        None \<Rightarrow> (Inr [], w)
      | Some h \<Rightarrow>
          (generateSignalRequest env,
           on_sdk (\<lambda>g. g \<lparr> generateSignalRequest_calls :=
                             Suc (generateSignalRequest_calls g) \<rparr>) w))"

definition createStreamSession :: "env \<Rightarrow> component \<Rightarrow> error option \<times> component" where
  "createStreamSession env w =
     (case signalRequest env (setState (\<lambda>st. st \<lparr> isStreamStarting := True \<rparr>) w) of
        (Inl e, w1) \<Rightarrow> (Some e, w1)
      | (Inr offer, w1) \<Rightarrow>
          (let payload = StartStream (appId (state w1)) (sgId (state w1)) offer
                           (regions (state w1))
           in case post_reply env of
                NotSent e \<Rightarrow> handleError e w1
              | Failed e \<Rightarrow> handleError e (send payload w1)
              | Replied data \<Rightarrow>
                  (case waitForACTIVE env (data_arn data) (sgId (state w1)) 600000
                          (send payload w1) of
                     (Some e, w2) \<Rightarrow> handleError e w2
                   | (None, w2) \<Rightarrow> (None, w2))))"

definition createStreamSessionConnection ::
  "env \<Rightarrow> component \<Rightarrow> error option \<times> component" where
  "createStreamSessionConnection env w =
     (case signalRequest env (setState (\<lambda>st. st \<lparr> isStreamStarting := True \<rparr>) w) of
        (Inl e, w1) \<Rightarrow> (Some e, w1)
      | (Inr offer, w1) \<Rightarrow>
          (let payload = Reconnect (sessionId (state w1)) offer
           in case post_reply env of
                NotSent e \<Rightarrow> handleError e w1
              | Failed e \<Rightarrow> handleError e (send payload w1)
              | Replied data \<Rightarrow>
                  (case startStream env (data_signalResponse data) (send payload w1) of
                     (Some e, w2) \<Rightarrow> handleError e w2
                   | (None, w2) \<Rightarrow> (None, w2))))"

definition closeConnection :: "component \<Rightarrow> component" where
  "closeConnection w =
     (let w1 = setState (\<lambda>st. st \<lparr> status := STOPPED, inputEnabled := False \<rparr>) w;
          w2 = on_sdk (\<lambda>g. g \<lparr> close_calls := Suc (close_calls g) \<rparr>) w1;
          w3 = resetGameLiftStreamsSDK w2;
          w4 = setState (\<lambda>st. st \<lparr> isStreamStarting := False \<rparr>) w3
      in if fullscreenElement w4 then w4 \<lparr> fullscreenElement := False \<rparr> else w4)"

text \<open>
  \<open>enableFullScreen\<close>, for a video element that is on the page (the component
  always renders it); the keyboard lock is left out.
\<close>

definition enableFullScreen :: "component \<Rightarrow> component" where
  "enableFullScreen w =
     (setState (\<lambda>st. st \<lparr> inputEnabled := True \<rparr>)
        (on_sdk (\<lambda>g. g \<lparr> attachInput_calls := Suc (attachInput_calls g) \<rparr>) w))
       \<lparr> fullscreenElement := True \<rparr>"

text \<open>
  \<open>String.prototype.trim\<close> for the ASCII white space: tab, line feed, vertical tab,
  form feed, carriage return and space.
\<close>

definition js_space :: "char \<Rightarrow> bool" where
  "js_space c = (c \<in> set [CHR 0x09, CHR 0x0A, CHR 0x0B, CHR 0x0C, CHR 0x0D, CHR '' ''])"

definition js_trim :: "string \<Rightarrow> string" where
  "js_trim v = rev (dropWhile js_space (rev (dropWhile js_space v)))"

text \<open>
  \<open>handleInputChange\<close> writes the trimmed value to the state field named by the
  input element. The component renders three inputs with this handler, named
  \<open>sgId\<close>, \<open>appId\<close> and \<open>sessionId\<close>.
\<close>

datatype input_name = Input_sgId | Input_appId | Input_sessionId

definition handleInputChange :: "input_name \<Rightarrow> string \<Rightarrow> component \<Rightarrow> component" where
  "handleInputChange name v w =
     (case name of
        Input_sgId \<Rightarrow> setState (\<lambda>st. st \<lparr> sgId := js_trim v \<rparr>) w
      | Input_appId \<Rightarrow> setState (\<lambda>st. st \<lparr> appId := js_trim v \<rparr>) w
      | Input_sessionId \<Rightarrow> setState (\<lambda>st. st \<lparr> sessionId := js_trim v \<rparr>) w)"

definition handleRegionChange :: "string \<Rightarrow> component \<Rightarrow> component" where
  "handleRegionChange region w = setState (\<lambda>st. st \<lparr> regions := [region] \<rparr>) w"

text \<open>
  The handlers the rendered page can call, each with what the outside world answers
  during that call, and a run of such calls one after the other.
\<close>

datatype event =
  CreateStreamSession env
| CreateStreamSessionConnection env
| CloseConnection
| EnableFullScreen
| HandleInputChange input_name string
| HandleRegionChange string

fun handle :: "event \<Rightarrow> component \<Rightarrow> component" where
  "handle (CreateStreamSession env) w = snd (createStreamSession env w)"
| "handle (CreateStreamSessionConnection env) w = snd (createStreamSessionConnection env w)"
| "handle CloseConnection w = closeConnection w"
| "handle EnableFullScreen w = enableFullScreen w"
| "handle (HandleInputChange name v) w = handleInputChange name v w"
| "handle (HandleRegionChange region) w = handleRegionChange region w"

definition run :: "event list \<Rightarrow> component \<Rightarrow> component" where
  "run es w = fold handle es w"

text \<open>The component once mounted, with its first SDK object.\<close>

definition mounted :: component where
  "mounted = componentDidMount constructor"


text \<open>The request fails with an \<open>ApiError\<close> that carries no response:\<close>

definition no_response_env :: env where
  "no_response_env =
     \<lparr> generateSignalRequest = Inr ''offer'',
       processSignalResponse = (\<lambda>answer. None),
       post_reply = Failed (ApiError None),
       get_reply = (\<lambda>i. \<lparr> latency = 0, reply = NotSent (Error None), sleep_extra = 0 \<rparr>) \<rparr>"

text \<open>
  The session is \<open>ACTIVATING\<close> at the first two polls and \<open>ACTIVE\<close> from the third
  on, every call answers at once and every timer is exact:
\<close>

definition active_at_third_env :: env where
  "active_at_third_env =
     \<lparr> generateSignalRequest = Inr ''offer'',
       processSignalResponse = (\<lambda>answer. None),
       post_reply = Replied \<lparr> data_arn = ''arn-1'', data_signalResponse = [],
                               data_status = ''ACTIVATING'' \<rparr>,
       get_reply = (\<lambda>i. \<lparr> latency = 0,
                            reply = Replied
                              \<lparr> data_arn = ''arn-1'',
                                data_signalResponse = (if i < 2 then [] else ''answer-3''),
                                data_status = (if i < 2 then ''ACTIVATING'' else ''ACTIVE'') \<rparr>,
                            sleep_extra = 0 \<rparr>) \<rparr>"


text \<open>
  Predicates for the SDK objects. Between two components the current SDK object is
  the same one, no object was constructed, only the current object was used and no
  object was closed:
\<close>

definition same_sdk_object :: "component \<Rightarrow> component \<Rightarrow> bool" where
  "same_sdk_object w w' =
     (gameliftstreams w' = gameliftstreams w
      \<and> length (sdk_objects w') = length (sdk_objects w)
      \<and> (\<forall>i. gameliftstreams w \<noteq> Some i \<longrightarrow> sdk_objects w' ! i = sdk_objects w ! i)
      \<and> (\<forall>i. close_calls (sdk_objects w' ! i) = close_calls (sdk_objects w ! i)))"

text \<open>
  Exactly one SDK object is live: the component holds an SDK object, and among all
  the objects constructed it is the one that has not been closed.
\<close>

definition one_live :: "component \<Rightarrow> bool" where
  "one_live w =
     (case gameliftstreams w of
        None \<Rightarrow> False
      | Some h \<Rightarrow>
          h < length (sdk_objects w)
          \<and> (\<forall>i < length (sdk_objects w). (close_calls (sdk_objects w ! i) = 0) = (i = h)))"

text \<open>The \<open>i\<close>-th SDK object exists and the component no longer holds it.\<close>

definition retired :: "nat \<Rightarrow> component \<Rightarrow> bool" where
  "retired i w = (i < length (sdk_objects w) \<and> gameliftstreams w \<noteq> Some i)"


section \<open>Properties of the reconnect handler\<close>

lemma js_split_not_Nil: "js_split sep s \<noteq> []"
  by (induction s) (auto split: list.splits)

lemma js_split_no_sep: "sep \<notin> set p \<Longrightarrow> js_split sep p = [p]"
  by (induction p) auto

lemma js_split_append_sep:
  "sep \<notin> set p \<Longrightarrow> js_split sep (p @ sep # rest) = p # js_split sep rest"
  by (induction p) auto

lemma js_split_join:
  "segs \<noteq> [] \<Longrightarrow> \<forall>p \<in> set segs. sep \<notin> set p \<Longrightarrow> js_split sep (js_join sep segs) = segs"
proof (induction sep segs rule: js_join.induct)
  case (1 sep)
  then show ?case by simp
next
  case (2 sep p)
  then show ?case by (simp add: js_split_no_sep)
next
  case (3 sep p q ps)
  then show ?case by (simp add: js_split_append_sep)
qed

text \<open>
  C1. Whatever ARN the reconnect handler is called with, the \<open>Identifier\<close> it sends
  to the control plane is the second-to-last \<open>/\<close>-delimited segment of that ARN:
  for an ARN that is the \<open>/\<close>-join of at least two slash-free segments, the identifier
  is the segment at position \<open>length - 2\<close>.
\<close>

theorem reconnect_identifier_is_second_to_last_segment:
  assumes "2 \<le> length segs"
    and "\<forall>p \<in> set segs. CHR ''/'' \<notin> set p"
  shows "connection_request \<lparr> SessionIdentifier = Some (js_join (CHR ''/'') segs),
                              SignalRequest = offer \<rparr>
         = Inr \<lparr> Identifier = Some (segs ! (length segs - 2)),
                 StreamSessionIdentifier = js_join (CHR ''/'') segs,
                 ConnectionSignalRequest = offer \<rparr>"
proof -
  from assms(1) have ne: "segs \<noteq> []" by auto
  have "js_split (CHR ''/'') (js_join (CHR ''/'') segs) = segs"
    using js_split_join [OF ne assms(2)] .
  with assms(1) show ?thesis
    by (simp add: connection_request_def sg_arn_def js_index_def nat_diff_distrib')
qed

theorem reconnect_identifier_witness:
  "(2::nat) \<le> length [''arn:aws:gameliftstreams:us-west-2:111122223333:streamsession'',
                      ''sg-abc'', ''sess-1'']
   \<and> connection_request
       \<lparr> SessionIdentifier =
           Some ''arn:aws:gameliftstreams:us-west-2:111122223333:streamsession/sg-abc/sess-1'',
         SignalRequest = Some ''offer'' \<rparr>
     = Inr \<lparr> Identifier = Some ''sg-abc'',
             StreamSessionIdentifier =
               ''arn:aws:gameliftstreams:us-west-2:111122223333:streamsession/sg-abc/sess-1'',
             ConnectionSignalRequest = Some ''offer'' \<rparr>"
  using reconnect_identifier_is_second_to_last_segment
    [of "[''arn:aws:gameliftstreams:us-west-2:111122223333:streamsession'',
          ''sg-abc'', ''sess-1'']" "Some ''offer''"]
  by simp

text \<open>
  At the ARN \<open>arn:aws:svc:us-west-2:111122223333:streamgroup/sg-abc/streamsession/sess-1\<close>
  the four segments are \<open>arn:...:streamgroup\<close>, \<open>sg-abc\<close>, \<open>streamsession\<close> and
  \<open>sess-1\<close>, so \<open>parts[parts.length - 2]\<close> is \<open>streamsession\<close> and not \<open>sg-abc\<close>.
\<close>

theorem reconnect_identifier_example_is_streamsession:
  "connection_request
     \<lparr> SessionIdentifier =
         Some ''arn:aws:svc:us-west-2:111122223333:streamgroup/sg-abc/streamsession/sess-1'',
       SignalRequest = Some ''offer'' \<rparr>
   = Inr \<lparr> Identifier = Some ''streamsession'',
           StreamSessionIdentifier =
             ''arn:aws:svc:us-west-2:111122223333:streamgroup/sg-abc/streamsession/sess-1'',
           ConnectionSignalRequest = Some ''offer'' \<rparr>
   \<and> sg_arn ''arn:aws:svc:us-west-2:111122223333:streamgroup/sg-abc/streamsession/sess-1''
     \<noteq> Some ''sg-abc''"
  by (simp add: connection_request_def sg_arn_def js_index_def)


section \<open>Properties of the Stats Processor\<close>

lemmas stats_defs =
  processStats_def process_report_def inbound_rtp_def candidate_pair_def to_ms_def

lemma Math_round_zero: "Math_round 0 = 0"
  by (simp add: Math_round_def floor_eq_iff)


lemma inbound_sample_fields:
  "report_type (inbound_sample f j b) = ''inbound-rtp''"
  "framesPerSecond (inbound_sample f j b) = Some f"
  "report_jitter (inbound_sample f j b) = Some j"
  "bytesReceived (inbound_sample f j b) = b"
  by (simp_all add: inbound_sample_def)

lemma pair_sample_fields:
  "report_type (pair_sample t) = ''candidate-pair''"
  "report_state (pair_sample t) = Some ''succeeded''"
  "currentRoundTripTime (pair_sample t) = Some t"
  by (simp_all add: pair_sample_def)






text \<open>
  C10. A processed inbound report (one that carries a frame rate) whose jitter is
  exactly 0 leaves the jitter undefined, printed as \<open>-\<close>; a succeeded candidate pair
  whose round-trip time is exactly 0 leaves the round-trip time undefined, printed
  as \<open>-\<close>; a frame rate of exactly 0 is printed as \<open>-\<close>. Whenever such a report leaves
  a jitter or round-trip value, it is the conversion of a raw value that is not zero.
\<close>

theorem zero_metrics_print_dash:
  "(report_type r = ''inbound-rtp'' \<and> framesPerSecond r = Some f \<longrightarrow>
       (report_jitter r = Some 0 \<longrightarrow>
          jitter (networkStats (process_report (now, r) s)) = None
        \<and> jitter_line (process_report (now, r) s) = ''- ms'')
     \<and> (f = 0 \<longrightarrow> frameRate (process_report (now, r) s) = Some 0
                  \<and> fps (process_report (now, r) s) = ''-'')
     \<and> (jitter (networkStats (process_report (now, r) s)) = Some v \<longrightarrow>
            (\<exists>j. report_jitter r = Some j \<and> j \<noteq> 0 \<and> v = Math_round (j * 1000))))
   \<and> (report_type r = ''candidate-pair'' \<and> report_state r = Some ''succeeded'' \<longrightarrow>
       (currentRoundTripTime r = Some 0 \<longrightarrow>
          rtt (networkStats (process_report (now, r) s)) = None
        \<and> rtt_line (process_report (now, r) s) = ''- ms'')
     \<and> (rtt (networkStats (process_report (now, r) s)) = Some v \<longrightarrow>
            (\<exists>t. currentRoundTripTime r = Some t \<and> t \<noteq> 0 \<and> v = Math_round (t * 1000))))"
  by (auto simp add: stats_defs Let_def Math_round_zero jitter_line_def rtt_line_def fps_def
        number_or_dash_def split: option.splits if_splits)

theorem zero_metrics_print_dash_witness:
  "jitter_line (process_report (7, inbound_sample 0 0 (Some 5)) initial_overlay) = ''- ms''
   \<and> fps (process_report (7, inbound_sample 0 0 (Some 5)) initial_overlay) = ''-''
   \<and> rtt_line (process_report (7, pair_sample 0) initial_overlay) = ''- ms''"
proof -
  note a = zero_metrics_print_dash [of "inbound_sample 0 0 (Some 5)" 0 7 initial_overlay]
  note b = zero_metrics_print_dash [of "pair_sample 0" _ 7 initial_overlay]
  from a inbound_sample_fields
  have 1: "jitter_line (process_report (7, inbound_sample 0 0 (Some 5)) initial_overlay) = ''- ms''"
    "fps (process_report (7, inbound_sample 0 0 (Some 5)) initial_overlay) = ''-''"
    by blast+
  from b pair_sample_fields
  have 2: "rtt_line (process_report (7, pair_sample 0) initial_overlay) = ''- ms''"
    by blast
  from 1 2 show ?thesis by blast
qed


section \<open>Properties of the Session Lifecycle Controller\<close>

lemma setState_simps [simp]:
  "state (setState f w) = f (state w)"
  "gameliftstreams (setState f w) = gameliftstreams w"
  "sdk_objects (setState f w) = sdk_objects w"
  "clock (setState f w) = clock w"
  "requests (setState f w) = requests w"
  "alerts (setState f w) = alerts w"
  "fullscreenElement (setState f w) = fullscreenElement w"
  by (simp_all add: setState_def)

lemma alert_simps [simp]:
  "state (alert m w) = state w"
  "gameliftstreams (alert m w) = gameliftstreams w"
  "sdk_objects (alert m w) = sdk_objects w"
  "clock (alert m w) = clock w"
  "requests (alert m w) = requests w"
  "alerts (alert m w) = alerts w @ [m]"
  "fullscreenElement (alert m w) = fullscreenElement w"
  by (simp_all add: alert_def)

lemma send_simps [simp]:
  "state (send r w) = state w"
  "gameliftstreams (send r w) = gameliftstreams w"
  "sdk_objects (send r w) = sdk_objects w"
  "clock (send r w) = clock w"
  "requests (send r w) = requests w @ [r]"
  "alerts (send r w) = alerts w"
  "fullscreenElement (send r w) = fullscreenElement w"
  by (simp_all add: send_def)

lemma on_sdk_simps [simp]:
  "state (on_sdk f w) = state w"
  "gameliftstreams (on_sdk f w) = gameliftstreams w"
  "clock (on_sdk f w) = clock w"
  "requests (on_sdk f w) = requests w"
  "alerts (on_sdk f w) = alerts w"
  "fullscreenElement (on_sdk f w) = fullscreenElement w"
  "length (sdk_objects (on_sdk f w)) = length (sdk_objects w)"
  by (simp_all add: on_sdk_def split: option.splits)

lemma on_sdk_current:
  "gameliftstreams w = Some h \<Longrightarrow> sdk_objects (on_sdk f w) = (sdk_objects w)[h := f (sdk_objects w ! h)]"
  by (simp add: on_sdk_def)

lemma signalRequest_simps:
  "state (snd (signalRequest env w)) = state w"
  "requests (snd (signalRequest env w)) = requests w"
  "alerts (snd (signalRequest env w)) = alerts w"
  "clock (snd (signalRequest env w)) = clock w"
  "gameliftstreams (snd (signalRequest env w)) = gameliftstreams w"
  by (simp_all add: signalRequest_def split: option.splits)

lemma mounted_fields:
  "gameliftstreams mounted = Some 0"
  "sdk_objects mounted = [new_GameLiftStreams]"
  "clock mounted = 0"
  "requests mounted = []"
  "alerts mounted = []"
  "state mounted = \<lparr> status = STOPPED, sgId = [], appId = [], sessionId = [],
                      lastSessionId = [], regions = [''us-west-2''], inputEnabled = False,
                      isStreamStarting = False \<rparr>"
  by (simp_all add: mounted_def componentDidMount_def resetGameLiftStreamsSDK_def
      constructor_def)




text \<open>
  C8 fails on the code. When the request of \<open>createStreamSession\<close> or of
  \<open>createStreamSessionConnection\<close> fails with an \<open>ApiError\<close> that carries no
  response, \<open>handleError\<close> does nothing, the operation returns, and
  \<open>isStreamStarting\<close> is still true.
\<close>

theorem isStreamStarting_stays_true_without_response:
  "fst (createStreamSession no_response_env mounted) = None
   \<and> isStreamStarting (state (snd (createStreamSession no_response_env mounted)))
   \<and> fst (createStreamSessionConnection no_response_env mounted) = None
   \<and> isStreamStarting (state (snd (createStreamSessionConnection no_response_env mounted)))"
  by (simp add: createStreamSession_def createStreamSessionConnection_def signalRequest_def
      handleError_def Let_def no_response_env_def mounted_def componentDidMount_def
      resetGameLiftStreamsSDK_def constructor_def on_sdk_def)

lemmas poll_three = poll.simps [where i = 0] poll.simps [where i = "Suc 0"]
  poll.simps [where i = "Suc (Suc 0)"]

text \<open>
  C4. When the first two polls answer \<open>ACTIVATING\<close> and the third \<open>ACTIVE\<close>, and the
  third pass begins before the deadline, \<open>waitForACTIVE\<close> returns after exactly three
  \<open>GetSession\<close> requests, at least 2000 ms after it began; the SDK object has been
  handed the \<open>signalResponse\<close> of the third answer and has had its input attached, the
  status is \<open>RUNNING\<close>, \<open>isStreamStarting\<close> is false and \<open>lastSessionId\<close> is the ARN.
\<close>

theorem waitForACTIVE_third_reply_active:
  assumes g0: "get_reply env 0 = \<lparr> latency = l0, reply = Replied d0, sleep_extra = x0 \<rparr>"
    and g1: "get_reply env (Suc 0) = \<lparr> latency = l1, reply = Replied d1, sleep_extra = x1 \<rparr>"
    and g2: "get_reply env (Suc (Suc 0)) = \<lparr> latency = l2, reply = Replied d2, sleep_extra = x2 \<rparr>"
    and s0: "data_status d0 = ''ACTIVATING''"
    and s1: "data_status d1 = ''ACTIVATING''"
    and s2: "data_status d2 = ''ACTIVE''"
    and ok: "processSignalResponse env (data_signalResponse d2) = None"
    and h: "gameliftstreams w = Some h" "h < length (sdk_objects w)"
    and t: "int l0 + 1000 + int x0 + int l1 + 1000 + int x1 < timeoutMs"
  shows "fst (waitForACTIVE env arn sg timeoutMs w) = None
       \<and> requests (snd (waitForACTIVE env arn sg timeoutMs w))
           = requests w @ [GetSession (clock w) sg arn,
                           GetSession (clock w + int l0 + 1000 + int x0) sg arn,
                           GetSession (clock w + int l0 + 1000 + int x0
                                        + int l1 + 1000 + int x1) sg arn]
       \<and> clock w + 2000 \<le> clock (snd (waitForACTIVE env arn sg timeoutMs w))
       \<and> sdk_objects (snd (waitForACTIVE env arn sg timeoutMs w))
           = (sdk_objects w)[h := (sdk_objects w ! h)
                \<lparr> processSignalResponse_calls :=
                    processSignalResponse_calls (sdk_objects w ! h) @ [data_signalResponse d2],
                  attachInput_calls := Suc (attachInput_calls (sdk_objects w ! h)) \<rparr>]
       \<and> state (snd (waitForACTIVE env arn sg timeoutMs w))
           = (state w) \<lparr> status := RUNNING, isStreamStarting := False, lastSessionId := arn \<rparr>"
  using assms
  by (simp add: waitForACTIVE_def poll_three poll_iteration_def Let_def startStream_def
      on_sdk_current)


theorem waitForACTIVE_third_reply_active_witness:
  "fst (waitForACTIVE active_at_third_env ''arn-1'' ''sg-1'' 600000 mounted) = None
   \<and> requests (snd (waitForACTIVE active_at_third_env ''arn-1'' ''sg-1'' 600000 mounted))
       = [GetSession 0 ''sg-1'' ''arn-1'', GetSession 1000 ''sg-1'' ''arn-1'',
          GetSession 2000 ''sg-1'' ''arn-1'']
   \<and> sdk_objects (snd (waitForACTIVE active_at_third_env ''arn-1'' ''sg-1'' 600000 mounted))
       = [\<lparr> generateSignalRequest_calls = 0, processSignalResponse_calls = [''answer-3''],
            attachInput_calls = 1, close_calls = 0 \<rparr>]
   \<and> status (state (snd (waitForACTIVE active_at_third_env ''arn-1'' ''sg-1'' 600000 mounted)))
       = RUNNING
   \<and> lastSessionId (state (snd (waitForACTIVE active_at_third_env ''arn-1'' ''sg-1'' 600000
                                  mounted))) = ''arn-1''"
proof -
  let ?d = "\<lambda>answer st. \<lparr> data_arn = ''arn-1'', data_signalResponse = answer,
                           data_status = st \<rparr>"
  have g: "get_reply active_at_third_env 0
             = \<lparr> latency = 0, reply = Replied (?d [] ''ACTIVATING''), sleep_extra = 0 \<rparr>"
    "get_reply active_at_third_env (Suc 0)
             = \<lparr> latency = 0, reply = Replied (?d [] ''ACTIVATING''), sleep_extra = 0 \<rparr>"
    "get_reply active_at_third_env (Suc (Suc 0))
             = \<lparr> latency = 0, reply = Replied (?d ''answer-3'' ''ACTIVE''), sleep_extra = 0 \<rparr>"
    by (simp_all add: active_at_third_env_def)
  have s: "data_status (?d [] ''ACTIVATING'') = ''ACTIVATING''"
    "data_status (?d ''answer-3'' ''ACTIVE'') = ''ACTIVE''"
    by simp_all
  have ok: "processSignalResponse active_at_third_env
              (data_signalResponse (?d ''answer-3'' ''ACTIVE'')) = None"
    by (simp add: active_at_third_env_def)
  have h: "(0::nat) < length (sdk_objects mounted)"
    by (simp add: mounted_fields)
  have t: "int 0 + 1000 + int 0 + int 0 + 1000 + int 0 < (600000::int)"
    by simp
  show ?thesis
    using waitForACTIVE_third_reply_active
      [OF g s(1) s(1) s(2) ok mounted_fields(1) h t, of "''arn-1''" "''sg-1''"]
    by (simp add: mounted_fields new_GameLiftStreams_def)
qed










subsection \<open>lastSessionId\<close>

lemma handleError_state:
  "lastSessionId (state (snd (handleError e w))) = lastSessionId (state w)"
  "status (state (snd (handleError e w))) = status (state w)"
  by (auto simp add: handleError_def split: error.splits option.splits response_body.splits)

lemma poll_catch_state:
  "lastSessionId (state (snd (poll_catch e w))) = lastSessionId (state w)"
  "status (state (snd (poll_catch e w))) = status (state w)"
  using handleError_state [of e w]
  by (auto simp add: poll_catch_def split: prod.splits option.splits)

lemma startStream_state:
  "lastSessionId (state (snd (startStream env a w))) = lastSessionId (state w)"
  "fst (startStream env a w) = None \<Longrightarrow>
     status (state (snd (startStream env a w))) = RUNNING
     \<and> \<not> isStreamStarting (state (snd (startStream env a w)))"
  by (auto simp add: startStream_def Let_def split: option.splits)

lemma poll_iteration_lastSessionId:
  "poll_iteration env arn sg i w = Inr w' \<Longrightarrow> state w' = state w"
  "poll_iteration env arn sg i w = Inl (r, w') \<Longrightarrow>
     lastSessionId (state w') \<noteq> lastSessionId (state w) \<Longrightarrow>
     r = None \<and> lastSessionId (state w') = arn \<and> status (state w') = RUNNING
     \<and> \<not> isStreamStarting (state w')
     \<and> (\<exists>d. reply (get_reply env i) = Replied d \<and> data_status d = ''ACTIVE'')"
proof -
  show "poll_iteration env arn sg i w = Inr w' \<Longrightarrow> state w' = state w"
    by (auto simp add: poll_iteration_def Let_def split: reply.splits if_splits prod.splits
        option.splits)
next
  assume it: "poll_iteration env arn sg i w = Inl (r, w')"
    and ch: "lastSessionId (state w') \<noteq> lastSessionId (state w)"
  let ?w1 = "w \<lparr> clock := clock w + int (latency (get_reply env i)) \<rparr>"
  let ?s = "send (GetSession (clock w) sg arn) ?w1"
  show "r = None \<and> lastSessionId (state w') = arn \<and> status (state w') = RUNNING
     \<and> \<not> isStreamStarting (state w')
     \<and> (\<exists>d. reply (get_reply env i) = Replied d \<and> data_status d = ''ACTIVE'')"
  proof (cases "reply (get_reply env i)")
    case (NotSent e)
    with it have "(r, w') = poll_catch e ?w1"
      by (simp add: poll_iteration_def Let_def)
    then have "w' = snd (poll_catch e ?w1)" by (metis snd_conv)
    with ch poll_catch_state(1) [of e ?w1] show ?thesis by simp
  next
    case (Failed e)
    with it have "(r, w') = poll_catch e ?s"
      by (simp add: poll_iteration_def Let_def)
    then have "w' = snd (poll_catch e ?s)" by (metis snd_conv)
    with ch poll_catch_state(1) [of e ?s] show ?thesis by simp
  next
    case (Replied d)
    show ?thesis
    proof (cases "data_status d = ''ACTIVE''")
      case False
      with Replied it show ?thesis by (simp add: poll_iteration_def Let_def)
    next
      case True
      obtain r2 w2 where ss: "startStream env (data_signalResponse d) ?s = (r2, w2)"
        by (cases "startStream env (data_signalResponse d) ?s")
      show ?thesis
      proof (cases r2)
        case (Some e)
        with Replied True ss it have "(r, w') = poll_catch e w2"
          by (simp add: poll_iteration_def Let_def)
        then have "w' = snd (poll_catch e w2)" by (metis snd_conv)
        with ch poll_catch_state(1) [of e w2]
          startStream_state(1) [of env "data_signalResponse d" ?s] ss
        show ?thesis by simp
      next
        case None
        with Replied True ss it
        have eq: "r = None" "w' = setState (\<lambda>st. st \<lparr> lastSessionId := arn \<rparr>) w2"
          by (simp_all add: poll_iteration_def Let_def)
        from startStream_state(2) [of env "data_signalResponse d" ?s] ss None
        have "status (state w2) = RUNNING \<and> \<not> isStreamStarting (state w2)" by simp
        with eq Replied True show ?thesis by simp
      qed
    qed
  qed
qed

lemma poll_lastSessionId:
  "lastSessionId (state (snd (poll env arn sg timeoutMs startTime i w)))
     \<noteq> lastSessionId (state w) \<Longrightarrow>
   fst (poll env arn sg timeoutMs startTime i w) = None
   \<and> lastSessionId (state (snd (poll env arn sg timeoutMs startTime i w))) = arn
   \<and> status (state (snd (poll env arn sg timeoutMs startTime i w))) = RUNNING
   \<and> \<not> isStreamStarting (state (snd (poll env arn sg timeoutMs startTime i w)))
   \<and> (\<exists>j d. reply (get_reply env j) = Replied d \<and> data_status d = ''ACTIVE'')"
proof (induction env arn sg timeoutMs startTime i w rule: poll.induct)
  case (1 env arn sg timeoutMs startTime i w)
  note unfold = poll.simps [of env arn sg timeoutMs startTime i w]
  show ?case
  proof (cases "clock w - startTime < timeoutMs")
    case False
    with "1.prems" show ?thesis
      by (simp add: unfold handleTimeout_def)
  next
    case True
    show ?thesis
    proof (cases "poll_iteration env arn sg i w")
      case (Inr w')
      with True have eq: "poll env arn sg timeoutMs startTime i w
                            = poll env arn sg timeoutMs startTime (Suc i) w'"
        by (simp add: unfold)
      from poll_iteration_lastSessionId(1) [OF Inr] have "state w' = state w" .
      with "1.prems" eq
      have "lastSessionId (state (snd (poll env arn sg timeoutMs startTime (Suc i) w')))
              \<noteq> lastSessionId (state w')" by simp
      from "1.IH" [OF True Inr this] eq show ?thesis by simp
    next
      case (Inl res)
      obtain r w' where res: "res = (r, w')" by (cases res)
      with Inl True have eq: "poll env arn sg timeoutMs startTime i w = (r, w')"
        by (simp add: unfold)
      with "1.prems" have "lastSessionId (state w') \<noteq> lastSessionId (state w)" by simp
      from poll_iteration_lastSessionId(2) [OF Inl [unfolded res] this] eq
      show ?thesis by auto
    qed
  qed
qed

lemma createStreamSession_lastSessionId:
  assumes "lastSessionId (state (snd (createStreamSession env w))) \<noteq> lastSessionId (state w)"
  shows "fst (createStreamSession env w) = None
       \<and> (\<exists>data. post_reply env = Replied data
              \<and> lastSessionId (state (snd (createStreamSession env w))) = data_arn data)
       \<and> status (state (snd (createStreamSession env w))) = RUNNING
       \<and> \<not> isStreamStarting (state (snd (createStreamSession env w)))
       \<and> (\<exists>j d. reply (get_reply env j) = Replied d \<and> data_status d = ''ACTIVE'')"
proof -
  let ?w0 = "setState (\<lambda>st. st \<lparr> isStreamStarting := True \<rparr>) w"
  obtain o1 w1 where sr: "signalRequest env ?w0 = (o1, w1)"
    by (cases "signalRequest env ?w0")
  have w1: "state w1 = (state w) \<lparr> isStreamStarting := True \<rparr>"
    using sr by (auto simp add: signalRequest_def split: option.splits)
  show ?thesis
  proof (cases o1)
    case (Inl e)
    with sr assms w1 show ?thesis by (simp add: createStreamSession_def)
  next
    case (Inr offer)
    let ?p = "StartStream (appId (state w1)) (sgId (state w1)) offer (regions (state w1))"
    show ?thesis
    proof (cases "post_reply env")
      case (NotSent e)
      with sr Inr have "createStreamSession env w = handleError e w1"
        by (simp add: createStreamSession_def Let_def)
      with assms handleError_state(1) [of e w1] w1 show ?thesis by simp
    next
      case (Failed e)
      with sr Inr have "createStreamSession env w = handleError e (send ?p w1)"
        by (simp add: createStreamSession_def Let_def)
      with assms handleError_state(1) [of e "send ?p w1"] w1 show ?thesis by simp
    next
      case (Replied data)
      let ?poll = "waitForACTIVE env (data_arn data) (sgId (state w1)) 600000 (send ?p w1)"
      obtain r2 w2 where p: "?poll = (r2, w2)" by (cases ?poll)
      show ?thesis
      proof (cases r2)
        case None
        with sr Inr Replied p have eq: "createStreamSession env w = (None, w2)"
          by (simp add: createStreamSession_def Let_def)
        with assms w1 p
        have "lastSessionId (state (snd (poll env (data_arn data) (sgId (state w1)) 600000
                (clock (send ?p w1)) 0 (send ?p w1)))) \<noteq> lastSessionId (state (send ?p w1))"
          by (simp add: waitForACTIVE_def)
        from poll_lastSessionId [OF this] p eq Replied show ?thesis
          by (simp add: waitForACTIVE_def)
      next
        case (Some e)
        with sr Inr Replied p have eq: "createStreamSession env w = handleError e w2"
          by (simp add: createStreamSession_def Let_def)
        with assms handleError_state(1) [of e w2] w1 p
        have "lastSessionId (state (snd (poll env (data_arn data) (sgId (state w1)) 600000
                (clock (send ?p w1)) 0 (send ?p w1)))) \<noteq> lastSessionId (state (send ?p w1))"
          by (simp add: waitForACTIVE_def)
        from poll_lastSessionId [OF this] p Some show ?thesis
          by (simp add: waitForACTIVE_def)
      qed
    qed
  qed
qed

lemma createStreamSessionConnection_lastSessionId:
  "lastSessionId (state (snd (createStreamSessionConnection env w))) = lastSessionId (state w)"
proof -
  let ?w0 = "setState (\<lambda>st. st \<lparr> isStreamStarting := True \<rparr>) w"
  obtain o1 w1 where sr: "signalRequest env ?w0 = (o1, w1)"
    by (cases "signalRequest env ?w0")
  have w1: "state w1 = (state w) \<lparr> isStreamStarting := True \<rparr>"
    using sr by (auto simp add: signalRequest_def split: option.splits)
  show ?thesis
  proof (cases o1)
    case (Inl e)
    with sr w1 show ?thesis by (simp add: createStreamSessionConnection_def)
  next
    case (Inr offer)
    let ?p = "Reconnect (sessionId (state w1)) offer"
    show ?thesis
    proof (cases "post_reply env")
      case (NotSent e)
      with sr Inr handleError_state(1) [of e w1] w1 show ?thesis
        by (simp add: createStreamSessionConnection_def Let_def)
    next
      case (Failed e)
      with sr Inr handleError_state(1) [of e "send ?p w1"] w1 show ?thesis
        by (simp add: createStreamSessionConnection_def Let_def)
    next
      case (Replied data)
      obtain r2 w2 where p: "startStream env (data_signalResponse data) (send ?p w1) = (r2, w2)"
        by (cases "startStream env (data_signalResponse data) (send ?p w1)")
      from startStream_state(1) [of env "data_signalResponse data" "send ?p w1"] p w1
      have w2: "lastSessionId (state w2) = lastSessionId (state w)" by simp
      show ?thesis
      proof (cases r2)
        case None
        with sr Inr Replied p w2 show ?thesis
          by (simp add: createStreamSessionConnection_def Let_def)
      next
        case (Some e)
        with sr Inr Replied p w2 handleError_state(1) [of e w2] show ?thesis
          by (simp add: createStreamSessionConnection_def Let_def)
      qed
    qed
  qed
qed

lemma closeConnection_state:
  "state (closeConnection w)
     = (state w) \<lparr> status := STOPPED, inputEnabled := False, isStreamStarting := False \<rparr>"
  by (simp add: closeConnection_def Let_def resetGameLiftStreamsSDK_def setState_def on_sdk_def
      split: option.splits)

lemma create_active_at_third_run:
  "lastSessionId (state (snd (createStreamSession active_at_third_env mounted))) = ''arn-1''"
  by (simp add: createStreamSession_def signalRequest_def Let_def waitForACTIVE_def poll_three
      poll_iteration_def startStream_def on_sdk_current active_at_third_env_def mounted_fields)

text \<open>
  C5. Whatever handler of the page runs, \<open>lastSessionId\<close> changes only when it is
  \<open>createStreamSession\<close> whose start request was answered and whose poll saw
  \<open>ACTIVE\<close>: the new value is the ARN of the started session and the status is then
  \<open>RUNNING\<close>. \<open>createStreamSessionConnection\<close> never changes it.
\<close>

theorem lastSessionId_only_set_by_create_and_poll:
  "(lastSessionId (state (handle e w)) \<noteq> lastSessionId (state w) \<longrightarrow>
      (\<exists>env data. e = CreateStreamSession env \<and> post_reply env = Replied data
          \<and> lastSessionId (state (handle e w)) = data_arn data
          \<and> (\<exists>j d. reply (get_reply env j) = Replied d \<and> data_status d = ''ACTIVE''))
      \<and> status (state (handle e w)) = RUNNING)
   \<and> lastSessionId (state (snd (createStreamSessionConnection env' w)))
       = lastSessionId (state w)"
proof (intro conjI impI)
  show "lastSessionId (state (snd (createStreamSessionConnection env' w)))
          = lastSessionId (state w)"
    by (rule createStreamSessionConnection_lastSessionId)
next
  assume ch: "lastSessionId (state (handle e w)) \<noteq> lastSessionId (state w)"
  have create: "\<exists>env. e = CreateStreamSession env"
  proof (cases e)
    case (CreateStreamSessionConnection env)
    with ch createStreamSessionConnection_lastSessionId [of env w] show ?thesis by simp
  next
    case CloseConnection
    with ch show ?thesis
      by (simp add: closeConnection_state)
  next
    case EnableFullScreen
    with ch show ?thesis by (simp add: enableFullScreen_def)
  next
    case (HandleInputChange n v)
    with ch show ?thesis by (cases n) (simp_all add: handleInputChange_def)
  next
    case (HandleRegionChange r)
    with ch show ?thesis by (simp add: handleRegionChange_def)
  qed simp
  then obtain env where e: "e = CreateStreamSession env" by blast
  from ch e createStreamSession_lastSessionId [of env w]
  show "\<exists>env data. e = CreateStreamSession env \<and> post_reply env = Replied data
          \<and> lastSessionId (state (handle e w)) = data_arn data
          \<and> (\<exists>j d. reply (get_reply env j) = Replied d \<and> data_status d = ''ACTIVE'')"
    by auto
  from ch e createStreamSession_lastSessionId [of env w]
  show "status (state (handle e w)) = RUNNING" by simp
qed


theorem lastSessionId_only_set_by_create_and_poll_witness:
  "lastSessionId (state (handle (CreateStreamSession active_at_third_env) mounted))
     \<noteq> lastSessionId (state mounted)
   \<and> lastSessionId (state (handle (CreateStreamSession active_at_third_env) mounted)) = ''arn-1''
   \<and> status (state (handle (CreateStreamSession active_at_third_env) mounted)) = RUNNING
   \<and> lastSessionId (state (snd (createStreamSessionConnection active_at_third_env mounted)))
       = lastSessionId (state mounted)"
proof -
  have ch: "lastSessionId (state (handle (CreateStreamSession active_at_third_env) mounted))
              \<noteq> lastSessionId (state mounted)"
    by (simp add: create_active_at_third_run mounted_fields)
  note t = lastSessionId_only_set_by_create_and_poll
    [of "CreateStreamSession active_at_third_env" mounted active_at_third_env]
  from t ch have "status (state (handle (CreateStreamSession active_at_third_env) mounted))
                    = RUNNING"
    by blast
  with t ch show ?thesis
    by (simp add: create_active_at_third_run)
qed

subsection \<open>SDK objects\<close>

lemma same_sdk_object_refl: "same_sdk_object w w"
  by (simp add: same_sdk_object_def)

lemma same_sdk_object_trans:
  "same_sdk_object w w' \<Longrightarrow> same_sdk_object w' w'' \<Longrightarrow> same_sdk_object w w''"
  by (simp add: same_sdk_object_def)

lemma same_sdk_object_fields:
  "gameliftstreams w' = gameliftstreams w \<Longrightarrow> sdk_objects w' = sdk_objects w \<Longrightarrow>
   same_sdk_object w w'"
  by (simp add: same_sdk_object_def)

lemma same_sdk_object_on_sdk:
  assumes "\<And>g. close_calls (f g) = close_calls g"
  shows "same_sdk_object w (on_sdk f w)"
proof (cases "gameliftstreams w")
  case None
  then show ?thesis by (simp add: same_sdk_object_def on_sdk_def)
next
  case (Some h)
  have "close_calls ((sdk_objects w)[h := f (sdk_objects w ! h)] ! i)
          = close_calls (sdk_objects w ! i)" for i
    by (cases "i = h"; cases "h < length (sdk_objects w)") (simp_all add: assms list_update_beyond)
  with Some show ?thesis
    by (auto simp add: same_sdk_object_def on_sdk_def)
qed

lemma same_sdk_object_setState: "same_sdk_object w (setState f w)"
  by (simp add: same_sdk_object_def)

lemma same_sdk_object_handleError: "same_sdk_object w (snd (handleError e w))"
  by (auto simp add: handleError_def same_sdk_object_def
      split: error.splits option.splits response_body.splits)

lemma same_sdk_object_poll_catch: "same_sdk_object w (snd (poll_catch e w))"
  using same_sdk_object_handleError [of w e]
  by (auto simp add: poll_catch_def same_sdk_object_def split: prod.splits option.splits)

lemma same_sdk_object_startStream: "same_sdk_object w (snd (startStream env a w))"
proof -
  let ?f = "\<lambda>g. g \<lparr> processSignalResponse_calls := processSignalResponse_calls g @ [a] \<rparr>"
  let ?g = "\<lambda>g. g \<lparr> attachInput_calls := Suc (attachInput_calls g) \<rparr>"
  have 1: "same_sdk_object w (on_sdk ?f w)"
    by (rule same_sdk_object_on_sdk) simp
  have 2: "same_sdk_object (on_sdk ?f w) (on_sdk ?g (on_sdk ?f w))"
    by (rule same_sdk_object_on_sdk) simp
  have 3: "same_sdk_object w (on_sdk ?g (on_sdk ?f w))"
    using 1 2 by (rule same_sdk_object_trans)
  have 4: "same_sdk_object w (setState r (on_sdk ?g (on_sdk ?f w)))" for r
    using 3 same_sdk_object_setState by (rule same_sdk_object_trans)
  show ?thesis
    using 1 4 by (simp add: startStream_def Let_def same_sdk_object_setState split: option.splits)
qed

lemma same_sdk_object_poll_iteration:
  "poll_iteration env arn sg i w = Inr w' \<Longrightarrow> same_sdk_object w w'"
  "poll_iteration env arn sg i w = Inl (r, w') \<Longrightarrow> same_sdk_object w w'"
proof -
  show "poll_iteration env arn sg i w = Inr w' \<Longrightarrow> same_sdk_object w w'"
    by (auto simp add: poll_iteration_def Let_def same_sdk_object_def
        split: reply.splits if_splits prod.splits option.splits)
next
  assume it: "poll_iteration env arn sg i w = Inl (r, w')"
  let ?w1 = "w \<lparr> clock := clock w + int (latency (get_reply env i)) \<rparr>"
  let ?s = "send (GetSession (clock w) sg arn) ?w1"
  have w1: "same_sdk_object w ?w1" and s: "same_sdk_object w ?s"
    by (simp_all add: same_sdk_object_def)
  show "same_sdk_object w w'"
  proof (cases "reply (get_reply env i)")
    case (NotSent e)
    with it have "(r, w') = poll_catch e ?w1"
      by (simp add: poll_iteration_def Let_def)
    then have "w' = snd (poll_catch e ?w1)" by (metis snd_conv)
    with same_sdk_object_poll_catch [of ?w1 e] w1 show ?thesis
      by (blast intro: same_sdk_object_trans)
  next
    case (Failed e)
    with it have "(r, w') = poll_catch e ?s"
      by (simp add: poll_iteration_def Let_def)
    then have "w' = snd (poll_catch e ?s)" by (metis snd_conv)
    with same_sdk_object_poll_catch [of ?s e] s show ?thesis
      by (blast intro: same_sdk_object_trans)
  next
    case (Replied d)
    show ?thesis
    proof (cases "data_status d = ''ACTIVE''")
      case False
      with Replied it show ?thesis by (simp add: poll_iteration_def Let_def)
    next
      case True
      obtain r2 w2 where ss: "startStream env (data_signalResponse d) ?s = (r2, w2)"
        by (cases "startStream env (data_signalResponse d) ?s")
      from same_sdk_object_startStream [of ?s env "data_signalResponse d"] ss s
      have w2: "same_sdk_object w w2"
        by (auto intro: same_sdk_object_trans)
      show ?thesis
      proof (cases r2)
        case (Some e)
        with Replied True ss it have "(r, w') = poll_catch e w2"
          by (simp add: poll_iteration_def Let_def)
        then have "w' = snd (poll_catch e w2)" by (metis snd_conv)
        with same_sdk_object_poll_catch [of w2 e] w2 show ?thesis
          by (blast intro: same_sdk_object_trans)
      next
        case None
        with Replied True ss it
        have "w' = setState (\<lambda>st. st \<lparr> lastSessionId := arn \<rparr>) w2"
          by (simp add: poll_iteration_def Let_def)
        with w2 same_sdk_object_setState show ?thesis
          by (blast intro: same_sdk_object_trans)
      qed
    qed
  qed
qed

lemma same_sdk_object_poll:
  "same_sdk_object w (snd (poll env arn sg timeoutMs startTime i w))"
proof (induction env arn sg timeoutMs startTime i w rule: poll.induct)
  case (1 env arn sg timeoutMs startTime i w)
  note unfold = poll.simps [of env arn sg timeoutMs startTime i w]
  show ?case
  proof (cases "clock w - startTime < timeoutMs")
    case False
    then show ?thesis
      by (simp add: unfold handleTimeout_def same_sdk_object_def)
  next
    case True
    show ?thesis
    proof (cases "poll_iteration env arn sg i w")
      case (Inr w')
      with True have eq: "poll env arn sg timeoutMs startTime i w
                            = poll env arn sg timeoutMs startTime (Suc i) w'"
        by (simp add: unfold)
      from same_sdk_object_poll_iteration(1) [OF Inr] "1.IH" [OF True Inr] eq
      show ?thesis by (auto intro: same_sdk_object_trans)
    next
      case (Inl res)
      obtain r w' where res: "res = (r, w')" by (cases res)
      with Inl True have eq: "poll env arn sg timeoutMs startTime i w = (r, w')"
        by (simp add: unfold)
      from same_sdk_object_poll_iteration(2) [OF Inl [unfolded res]] eq
      show ?thesis by simp
    qed
  qed
qed

lemma same_sdk_object_signalRequest: "same_sdk_object w (snd (signalRequest env w))"
proof -
  have "same_sdk_object w
          (on_sdk (\<lambda>g. g \<lparr> generateSignalRequest_calls := Suc (generateSignalRequest_calls g) \<rparr>) w)"
    by (rule same_sdk_object_on_sdk) simp
  then show ?thesis
    by (simp add: signalRequest_def same_sdk_object_refl split: option.splits)
qed

lemma same_sdk_object_createStreamSession:
  "same_sdk_object w (snd (createStreamSession env w))"
proof -
  let ?w0 = "setState (\<lambda>st. st \<lparr> isStreamStarting := True \<rparr>) w"
  obtain o1 w1 where sr: "signalRequest env ?w0 = (o1, w1)"
    by (cases "signalRequest env ?w0")
  from same_sdk_object_signalRequest [of ?w0 env] sr same_sdk_object_setState [of w]
  have w1: "same_sdk_object w w1"
    by (auto intro: same_sdk_object_trans)
  show ?thesis
  proof (cases o1)
    case (Inl e)
    with sr w1 show ?thesis by (simp add: createStreamSession_def)
  next
    case (Inr offer)
    let ?p = "StartStream (appId (state w1)) (sgId (state w1)) offer (regions (state w1))"
    have s: "same_sdk_object w (send ?p w1)"
      using w1 by (simp add: same_sdk_object_def)
    show ?thesis
    proof (cases "post_reply env")
      case (NotSent e)
      with sr Inr have "createStreamSession env w = handleError e w1"
        by (simp add: createStreamSession_def Let_def)
      with same_sdk_object_handleError [of w1 e] w1 show ?thesis
        by (auto intro: same_sdk_object_trans)
    next
      case (Failed e)
      with sr Inr have "createStreamSession env w = handleError e (send ?p w1)"
        by (simp add: createStreamSession_def Let_def)
      with same_sdk_object_handleError [of "send ?p w1" e] s show ?thesis
        by (auto intro: same_sdk_object_trans)
    next
      case (Replied data)
      let ?poll = "waitForACTIVE env (data_arn data) (sgId (state w1)) 600000 (send ?p w1)"
      obtain r2 w2 where p: "?poll = (r2, w2)" by (cases ?poll)
      from same_sdk_object_poll [of "send ?p w1" env "data_arn data" "sgId (state w1)" 600000
          "clock (send ?p w1)" 0] p s
      have w2: "same_sdk_object w w2"
        by (auto simp add: waitForACTIVE_def intro: same_sdk_object_trans)
      show ?thesis
      proof (cases r2)
        case None
        with sr Inr Replied p w2 show ?thesis
          by (simp add: createStreamSession_def Let_def)
      next
        case (Some e)
        with sr Inr Replied p have "createStreamSession env w = handleError e w2"
          by (simp add: createStreamSession_def Let_def)
        with same_sdk_object_handleError [of w2 e] w2 show ?thesis
          by (auto intro: same_sdk_object_trans)
      qed
    qed
  qed
qed

lemma same_sdk_object_createStreamSessionConnection:
  "same_sdk_object w (snd (createStreamSessionConnection env w))"
proof -
  let ?w0 = "setState (\<lambda>st. st \<lparr> isStreamStarting := True \<rparr>) w"
  obtain o1 w1 where sr: "signalRequest env ?w0 = (o1, w1)"
    by (cases "signalRequest env ?w0")
  from same_sdk_object_signalRequest [of ?w0 env] sr same_sdk_object_setState [of w]
  have w1: "same_sdk_object w w1"
    by (auto intro: same_sdk_object_trans)
  show ?thesis
  proof (cases o1)
    case (Inl e)
    with sr w1 show ?thesis by (simp add: createStreamSessionConnection_def)
  next
    case (Inr offer)
    let ?p = "Reconnect (sessionId (state w1)) offer"
    have s: "same_sdk_object w (send ?p w1)"
      using w1 by (simp add: same_sdk_object_def)
    show ?thesis
    proof (cases "post_reply env")
      case (NotSent e)
      with sr Inr have "createStreamSessionConnection env w = handleError e w1"
        by (simp add: createStreamSessionConnection_def Let_def)
      with same_sdk_object_handleError [of w1 e] w1 show ?thesis
        by (auto intro: same_sdk_object_trans)
    next
      case (Failed e)
      with sr Inr have "createStreamSessionConnection env w = handleError e (send ?p w1)"
        by (simp add: createStreamSessionConnection_def Let_def)
      with same_sdk_object_handleError [of "send ?p w1" e] s show ?thesis
        by (auto intro: same_sdk_object_trans)
    next
      case (Replied data)
      obtain r2 w2 where p: "startStream env (data_signalResponse data) (send ?p w1) = (r2, w2)"
        by (cases "startStream env (data_signalResponse data) (send ?p w1)")
      from same_sdk_object_startStream [of "send ?p w1" env "data_signalResponse data"] p s
      have w2: "same_sdk_object w w2"
        by (auto intro: same_sdk_object_trans)
      show ?thesis
      proof (cases r2)
        case None
        with sr Inr Replied p w2 show ?thesis
          by (simp add: createStreamSessionConnection_def Let_def)
      next
        case (Some e)
        with sr Inr Replied p have "createStreamSessionConnection env w = handleError e w2"
          by (simp add: createStreamSessionConnection_def Let_def)
        with same_sdk_object_handleError [of w2 e] w2 show ?thesis
          by (auto intro: same_sdk_object_trans)
      qed
    qed
  qed
qed

lemma same_sdk_object_enableFullScreen: "same_sdk_object w (enableFullScreen w)"
proof -
  have "same_sdk_object w
          (on_sdk (\<lambda>g. g \<lparr> attachInput_calls := Suc (attachInput_calls g) \<rparr>) w)"
    by (rule same_sdk_object_on_sdk) simp
  then show ?thesis
    by (simp add: enableFullScreen_def same_sdk_object_def)
qed

lemma same_sdk_object_handle:
  "e \<noteq> CloseConnection \<Longrightarrow> same_sdk_object w (handle e w)"
proof (cases e)
  case (HandleInputChange n v)
  then show ?thesis
    by (cases n) (simp_all add: handleInputChange_def same_sdk_object_setState)
qed (simp_all add: same_sdk_object_createStreamSession
      same_sdk_object_createStreamSessionConnection same_sdk_object_enableFullScreen
      handleRegionChange_def same_sdk_object_setState)


lemma one_live_same:
  "one_live w \<Longrightarrow> same_sdk_object w w' \<Longrightarrow> one_live w'"
  by (auto simp add: one_live_def same_sdk_object_def split: option.splits)

lemma closeConnection_sdk:
  "gameliftstreams (closeConnection w) = Some (length (sdk_objects w))"
  "gameliftstreams w = Some h \<Longrightarrow>
     sdk_objects (closeConnection w)
       = (sdk_objects w)[h := (sdk_objects w ! h) \<lparr> close_calls := Suc (close_calls (sdk_objects w ! h)) \<rparr>]
         @ [new_GameLiftStreams]"
  "gameliftstreams w = None \<Longrightarrow>
     sdk_objects (closeConnection w) = sdk_objects w @ [new_GameLiftStreams]"
  by (simp_all add: closeConnection_def Let_def resetGameLiftStreamsSDK_def on_sdk_def
      setState_def split: option.splits)

lemma one_live_closeConnection:
  assumes "one_live w"
  shows "one_live (closeConnection w)"
proof -
  from assms obtain h where h: "gameliftstreams w = Some h" "h < length (sdk_objects w)"
    and live: "\<forall>i < length (sdk_objects w). (close_calls (sdk_objects w ! i) = 0) = (i = h)"
    by (auto simp add: one_live_def split: option.splits)
  let ?n = "length (sdk_objects w)"
  have "(close_calls (sdk_objects (closeConnection w) ! i) = 0) = (i = ?n)"
    if "i < Suc ?n" for i
  proof (cases "i = ?n")
    case True
    then show ?thesis
      by (simp add: closeConnection_sdk(2) [OF h(1)] nth_append new_GameLiftStreams_def)
  next
    case False
    with that have i: "i < ?n" by simp
    show ?thesis
    proof (cases "i = h")
      case True
      with i False show ?thesis
        by (simp add: closeConnection_sdk(2) [OF h(1)] nth_append)
    next
      case ne: False
      with i False live show ?thesis
        by (simp add: closeConnection_sdk(2) [OF h(1)] nth_append)
    qed
  qed
  then show ?thesis
    by (simp add: one_live_def closeConnection_sdk(1) closeConnection_sdk(2) [OF h(1)])
qed

lemma one_live_mounted: "one_live mounted"
  by (simp add: one_live_def mounted_fields new_GameLiftStreams_def)

lemma one_live_handle: "one_live w \<Longrightarrow> one_live (handle e w)"
proof (cases "e = CloseConnection")
  case True
  assume "one_live w"
  with True show ?thesis by (simp add: one_live_closeConnection)
next
  case False
  assume "one_live w"
  with same_sdk_object_handle [OF False, of w] show ?thesis
    by (rule one_live_same [rotated])
qed

lemma one_live_run: "one_live w \<Longrightarrow> one_live (run es w)"
  unfolding run_def by (induction es arbitrary: w) (simp_all add: one_live_handle)

lemma retired_handle:
  assumes "retired i w"
  shows "retired i (handle e w) \<and> sdk_objects (handle e w) ! i = sdk_objects w ! i"
proof (cases "e = CloseConnection")
  case False
  from same_sdk_object_handle [OF False, of w] assms show ?thesis
    by (simp add: retired_def same_sdk_object_def)
next
  case True
  from assms have i: "i < length (sdk_objects w)" "gameliftstreams w \<noteq> Some i"
    by (simp_all add: retired_def)
  show ?thesis
  proof (cases "gameliftstreams w")
    case None
    with i True show ?thesis
      by (simp add: retired_def closeConnection_sdk(1) closeConnection_sdk(3) nth_append)
  next
    case (Some h)
    with i True show ?thesis
      by (auto simp add: retired_def closeConnection_sdk(1) closeConnection_sdk(2) [OF Some]
          nth_append)
  qed
qed

lemma retired_run:
  "retired i w \<Longrightarrow> retired i (run es w) \<and> sdk_objects (run es w) ! i = sdk_objects w ! i"
  unfolding run_def
proof (induction es arbitrary: w)
  case Nil
  then show ?case by simp
next
  case (Cons e es)
  from retired_handle [OF Cons.prems, of e]
  have r: "retired i (handle e w)" and eq: "sdk_objects (handle e w) ! i = sdk_objects w ! i"
    by simp_all
  from Cons.IH [OF r] eq show ?case by simp
qed

text \<open>
  C9. In every state \<open>w\<close> the mounted component can reach there is exactly one live
  SDK object, the current one. \<open>closeConnection\<close> sets the status to \<open>STOPPED\<close>,
  clears \<open>inputEnabled\<close>, calls \<open>close\<close> on the current object once (its count goes
  from 0 to 1), and makes a newly constructed object the current one. Whatever
  handlers run afterwards, the closed object is not touched again, and there is
  again exactly one live object.
\<close>

theorem closeConnection_replaces_sdk_object:
  assumes "w = run es mounted"
  shows "\<exists>h. gameliftstreams w = Some h \<and> h < length (sdk_objects w)
            \<and> close_calls (sdk_objects w ! h) = 0
            \<and> status (state (closeConnection w)) = STOPPED
            \<and> \<not> inputEnabled (state (closeConnection w))
            \<and> sdk_objects (closeConnection w) ! h = (sdk_objects w ! h) \<lparr> close_calls := 1 \<rparr>
            \<and> gameliftstreams (closeConnection w) = Some (length (sdk_objects w))
            \<and> sdk_objects (closeConnection w) ! length (sdk_objects w) = new_GameLiftStreams
            \<and> one_live w \<and> one_live (closeConnection w)
            \<and> one_live (run es' (closeConnection w))
            \<and> sdk_objects (run es' (closeConnection w)) ! h = sdk_objects (closeConnection w) ! h"
proof -
  have live: "one_live w"
    unfolding assms by (rule one_live_run [OF one_live_mounted])
  then obtain h where h: "gameliftstreams w = Some h" "h < length (sdk_objects w)"
    and zero: "close_calls (sdk_objects w ! h) = 0"
    by (auto simp add: one_live_def split: option.splits)
  have live': "one_live (closeConnection w)"
    using live by (rule one_live_closeConnection)
  have old: "sdk_objects (closeConnection w) ! h = (sdk_objects w ! h) \<lparr> close_calls := 1 \<rparr>"
    using h zero by (simp add: closeConnection_sdk(2) [OF h(1)] nth_append)
  have new: "sdk_objects (closeConnection w) ! length (sdk_objects w) = new_GameLiftStreams"
    by (simp add: closeConnection_sdk(2) [OF h(1)] nth_append)
  have "retired h (closeConnection w)"
    using h by (simp add: retired_def closeConnection_sdk(1) closeConnection_sdk(2) [OF h(1)])
  from retired_run [OF this, of es']
  have later: "sdk_objects (run es' (closeConnection w)) ! h = sdk_objects (closeConnection w) ! h"
    by simp
  from h zero old new live live' later one_live_run [OF live', of es']
  show ?thesis
    by (simp add: closeConnection_state closeConnection_sdk(1))
qed

theorem closeConnection_replaces_sdk_object_witness:
  "status (state (closeConnection mounted)) = STOPPED
   \<and> gameliftstreams mounted = Some 0
   \<and> gameliftstreams (closeConnection mounted) = Some 1
   \<and> close_calls (sdk_objects (closeConnection mounted) ! 0) = 1
   \<and> sdk_objects (closeConnection mounted) ! 1 = new_GameLiftStreams
   \<and> one_live (run [EnableFullScreen, CloseConnection] (closeConnection mounted))
   \<and> sdk_objects (run [EnableFullScreen, CloseConnection] (closeConnection mounted)) ! 0
       = sdk_objects (closeConnection mounted) ! 0"
proof -
  have m: "mounted = run [] mounted"
    by (simp add: run_def)
  from closeConnection_replaces_sdk_object [OF m, of "[EnableFullScreen, CloseConnection]"]
  show ?thesis
    by (simp add: mounted_fields)
qed


end
